theory Spec2Isabelle
  imports Main
begin

section \<open>Data model\<close>

text \<open>
  The survey application keeps two kinds of records: users and responses.  Ids, question
  ids and scores are JavaScript numbers that only ever hold integers; they are modelled
  as \<open>int\<close>.  A timestamp is represented by the instant it denotes, in milliseconds since
  the epoch, which is what \<^verbatim>\<open>new Date(ts).getTime()\<close> reads from it; the application only
  writes timestamps with \<^verbatim>\<open>toISOString()\<close> and SQLite's \<^verbatim>\<open>CURRENT_TIMESTAMP\<close>, which
  always denote an instant.
\<close>

type_synonym timestamp = int

text \<open>\<^verbatim>\<open>User\<close> of \<^verbatim>\<open>types.ts\<close>: \<^verbatim>\<open>{ id, name, avatar, grade, gender }\<close>.\<close>

record user =
  u_id :: int
  u_name :: string
  u_avatar :: string
  u_grade :: string
  u_gender :: string

text \<open>A response as stored locally and in the \<^verbatim>\<open>responses\<close> table.\<close>

record response =
  r_id :: int
  r_user_id :: int
  r_question_id :: int
  r_score :: int
  r_timestamp :: timestamp

text \<open>
  One row of the admin view (\<^verbatim>\<open>AdminResponseView\<close>): a response joined with its user.
  The \<^verbatim>\<open>question_text\<close> that \<^verbatim>\<open>loadData\<close> adds is display text only and is left out.
\<close>

record row =
  user_id :: int
  user_name :: string
  user_avatar :: string
  user_grade :: string
  user_gender :: string
  question_id :: int
  score :: int
  timestamp :: timestamp

text \<open>
  \<^verbatim>\<open>interface StudentSummary\<close>.  Its \<^verbatim>\<open>user_id\<close> field is called \<open>s_user_id\<close> here, the
  name \<open>user_id\<close> being taken by the rows.  \<^verbatim>\<open>answers\<close> is a JavaScript \<^verbatim>\<open>Map\<close> from
  question id to score.
\<close>

record student_summary =
  s_user_id :: int
  name :: string
  avatar :: string
  grade :: string
  gender :: string
  answers :: "(int \<times> int) list"
  last_timestamp :: timestamp

section \<open>JavaScript \<^verbatim>\<open>Map\<close>\<close>

text \<open>
  A JavaScript \<^verbatim>\<open>Map\<close> iterates in insertion order, and \<^verbatim>\<open>set\<close> on a key that is present
  replaces the value where it stands.  It is modelled as an association list.
\<close>

definition Map_get :: "('k \<times> 'v) list \<Rightarrow> 'k \<Rightarrow> 'v option" where
  "Map_get m k = map_of m k"

definition Map_has :: "('k \<times> 'v) list \<Rightarrow> 'k \<Rightarrow> bool" where
  "Map_has m k = (case map_of m k of None \<Rightarrow> False | Some v \<Rightarrow> True)"

fun Map_set :: "('k \<times> 'v) list \<Rightarrow> 'k \<Rightarrow> 'v \<Rightarrow> ('k \<times> 'v) list" where
  "Map_set [] k v = [(k, v)]"
| "Map_set ((k', v') # m) k v =
     (if k' = k then (k, v) # m else (k', v') # Map_set m k v)"

definition Map_values :: "('k \<times> 'v) list \<Rightarrow> 'v list" where
  "Map_values m = map snd m"

definition Map_size :: "('k \<times> 'v) list \<Rightarrow> nat" where
  "Map_size m = length m"

section \<open>Response Aggregator (\<^verbatim>\<open>studentSummaries\<close> of the admin panel)\<close>

text \<open>
  The default avatar of a summary is the emoji U+1F9D1 U+200D U+1F393, written here as
  its UTF-8 bytes.
\<close>

definition student_emoji :: string where
  "student_emoji =
     [CHR 0xF0, CHR 0x9F, CHR 0xA7, CHR 0x91, CHR 0xE2, CHR 0x80, CHR 0x8D,
      CHR 0xF0, CHR 0x9F, CHR 0x8E, CHR 0x93]"

text \<open>The object stored for a user id that has not been seen before.\<close>

definition new_summary :: "row \<Rightarrow> student_summary" where
  "new_summary row =
     \<lparr> s_user_id = user_id row,
       name = user_name row,
       avatar = (if user_avatar row = [] then student_emoji else user_avatar row),
       grade = user_grade row,
       gender = user_gender row,
       answers = [],
       last_timestamp = timestamp row \<rparr>"

text \<open>
  The body of \<^verbatim>\<open>rawData.forEach(row => ...)\<close> has three statements.  The first opens a
  summary for a user id that the map does not have yet.
\<close>

definition open_summary ::
  "(int \<times> student_summary) list \<Rightarrow> row \<Rightarrow> (int \<times> student_summary) list" where
  "open_summary m row =
     (if \<not> Map_has m (user_id row)
      then Map_set m (user_id row) (new_summary row) else m)"

text \<open>The second records the score unless the question already has one.\<close>

definition record_answer :: "student_summary \<Rightarrow> row \<Rightarrow> student_summary" where
  "record_answer student row =
     (if \<not> Map_has (answers student) (question_id row)
      then student\<lparr>answers := Map_set (answers student) (question_id row) (score row)\<rparr>
      else student)"

text \<open>The third keeps the latest timestamp seen for the user.\<close>

definition touch_timestamp :: "student_summary \<Rightarrow> row \<Rightarrow> student_summary" where
  "touch_timestamp student row =
     (if timestamp row > last_timestamp student
      then student\<lparr>last_timestamp := timestamp row\<rparr>
      else student)"

text \<open>
  The summary object is mutated in place in the source; here the entry of the map is
  replaced by the updated object, which keeps its position.
  \<^verbatim>\<open>map.get(row.user_id)!\<close> cannot be undefined after the first statement; the \<open>None\<close>
  branch is there only because \<open>Map_get\<close> returns an option.
\<close>

definition process_row ::
  "(int \<times> student_summary) list \<Rightarrow> row \<Rightarrow> (int \<times> student_summary) list" where
  "process_row m row =
     (let m1 = open_summary m row
      in case Map_get m1 (user_id row) of
           None \<Rightarrow> m1
         | Some student \<Rightarrow>
             Map_set m1 (user_id row) (touch_timestamp (record_answer student row) row))"

definition studentSummaries :: "row list \<Rightarrow> student_summary list" where
  "studentSummaries rawData = Map_values (foldl process_row [] rawData)"

text \<open>
  The answer the summaries hold for user \<open>u\<close> and question \<open>q\<close>:
  \<^verbatim>\<open>summaries.find(s => s.user_id === u)?.answers.get(q)\<close>.
\<close>

definition answer_of :: "student_summary list \<Rightarrow> int \<Rightarrow> int \<Rightarrow> int option" where
  "answer_of sums u q =
     (case find (\<lambda>s. s_user_id s = u) sums of
        None \<Rightarrow> None
      | Some s \<Rightarrow> Map_get (answers s) q)"

section \<open>Totals and progress\<close>

text \<open>
  The fixed question set \<^verbatim>\<open>QUESTIONS\<close> lives in \<^verbatim>\<open>constants.ts\<close>, which is not part of the
  sources at hand; every function that reads it takes it as a parameter.
\<close>

record question =
  q_id :: int
  q_text :: string
  image_filename :: string

text \<open>\<^verbatim>\<open>String(n)\<close> for a natural number: its decimal digits.\<close>

fun string_of_nat :: "nat \<Rightarrow> string" where
  "string_of_nat n =
     (if n < 10 then [''0123456789'' ! n]
      else string_of_nat (n div 10) @ [''0123456789'' ! (n mod 10)])"

text \<open>
  A JavaScript number is an IEEE 754 double, and \<^verbatim>\<open>+\<close> rounds the exact sum to the nearest
  double, ties to the even significand.  A score is a double that holds an integer, so a
  total is a double that holds an integer, or an infinity, or \<^verbatim>\<open>NaN\<close>.  (Integers that no
  double holds do not occur as scores.)
\<close>

datatype number = Finite int | Infinity | Minus_Infinity | NaN

text \<open>The number of binary digits of a natural number.\<close>

fun bit_width :: "nat \<Rightarrow> nat" where
  "bit_width n = (if n = 0 then 0 else Suc (bit_width (n div 2)))"

declare bit_width.simps [simp del]

text \<open>
  The nearest natural number with at most 53 significant binary digits, which is the
  significand of a double; a tie goes to the even significand.
\<close>

definition round_significand :: "nat \<Rightarrow> nat" where
  "round_significand n =
     (if bit_width n \<le> 53 then n
      else let s = bit_width n - 53; q = n div 2 ^ s; r = n mod 2 ^ s
           in if 2 ^ s < 2 * r \<or> (2 * r = 2 ^ s \<and> odd q)
              then (q + 1) * 2 ^ s else q * 2 ^ s)"

text \<open>
  The double nearest to an integer.  A rounded magnitude of \<open>2 ^ 1024\<close> or more, that is
  of more than 1024 binary digits, overflows to an infinity.
\<close>

definition to_double :: "int \<Rightarrow> number" where
  "to_double x =
     (let m = round_significand (nat \<bar>x\<bar>)
      in if 1024 < bit_width m then (if x < 0 then Minus_Infinity else Infinity)
         else Finite (if x < 0 then - int m else int m))"

text \<open>\<^verbatim>\<open>a + b\<close> on such numbers.\<close>

fun js_add :: "number \<Rightarrow> number \<Rightarrow> number" where
  "js_add (Finite a) (Finite b) = to_double (a + b)"
| "js_add NaN y = NaN"
| "js_add x NaN = NaN"
| "js_add Infinity Minus_Infinity = NaN"
| "js_add Minus_Infinity Infinity = NaN"
| "js_add Infinity y = Infinity"
| "js_add x Infinity = Infinity"
| "js_add Minus_Infinity y = Minus_Infinity"
| "js_add x Minus_Infinity = Minus_Infinity"

text \<open>
  Dashboard row:
  \<^verbatim>\<open>Array.from(student.answers.values()).reduce((a, b) => a + b, 0)\<close>,
  \<^verbatim>\<open>student.answers.size\<close> and \<^verbatim>\<open>QUESTIONS.length\<close>.  The scores are added in the
  insertion order of the map.
\<close>

definition panel_totalScore :: "student_summary \<Rightarrow> number" where
  "panel_totalScore student =
     foldl (\<lambda>a b. js_add a (Finite b)) (Finite 0) (Map_values (answers student))"

definition panel_answerCount :: "student_summary \<Rightarrow> nat" where
  "panel_answerCount student = Map_size (answers student)"

definition panel_totalQuestions :: "question list \<Rightarrow> nat" where
  "panel_totalQuestions QUESTIONS = length QUESTIONS"

text \<open>
  \<^verbatim>\<open>exportCSV\<close>: the question columns are the sorted ids of \<^verbatim>\<open>QUESTIONS\<close>; the total is
  accumulated while those columns are filled, so it adds the score of a column only, in
  the order of the columns.
\<close>

definition allQuestionIds :: "question list \<Rightarrow> int list" where
  "allQuestionIds QUESTIONS = sort (map q_id QUESTIONS)"

definition csv_totalScore :: "question list \<Rightarrow> student_summary \<Rightarrow> number" where
  "csv_totalScore QUESTIONS s =
     foldl (\<lambda>totalScore qid.
              case Map_get (answers s) qid of
                Some sc \<Rightarrow> js_add totalScore (Finite sc)
              | None \<Rightarrow> totalScore)
       (Finite 0) (allQuestionIds QUESTIONS)"

definition csv_progress :: "question list \<Rightarrow> student_summary \<Rightarrow> string" where
  "csv_progress QUESTIONS s =
     string_of_nat (Map_size (answers s)) @ ''/'' @ string_of_nat (length QUESTIONS)"

section \<open>Local Fallback Store\<close>

text \<open>
  Every read of a local collection is
  \<^verbatim>\<open>JSON.parse(localStorage.getItem(key) || '[]')\<close>.  An item is modelled by what that
  expression does with it: the key is absent (\<^verbatim>\<open>getItem\<close> returns \<^verbatim>\<open>null\<close>), or it holds
  text that \<^verbatim>\<open>JSON.parse\<close> rejects with a \<^verbatim>\<open>SyntaxError\<close>, or it holds the serialisation
  of an array of records.
\<close>

datatype 'a item = Absent | Unparseable | Json_array "'a list"

record localStorage =
  sel_users :: "user item"
  sel_responses :: "response item"

datatype error =
    SyntaxError     \<comment> \<open>thrown by \<^verbatim>\<open>JSON.parse\<close>\<close>
  | Fetch_failed    \<comment> \<open>\<^verbatim>\<open>fetch\<close> rejected, or was aborted at the deadline\<close>
  | Sync_failed     \<comment> \<open>\<^verbatim>\<open>new Error('Sync failed')\<close>\<close>

definition read_item :: "'a item \<Rightarrow> error + 'a list" where
  "read_item it =
     (case it of
        Absent \<Rightarrow> Inr []
      | Unparseable \<Rightarrow> Inl SyntaxError
      | Json_array xs \<Rightarrow> Inr xs)"

text \<open>\<^verbatim>\<open>clearLocalData\<close>, and the two \<^verbatim>\<open>removeItem\<close> calls at the end of a sync.\<close>

definition clearLocalData :: "localStorage \<Rightarrow> localStorage" where
  "clearLocalData ls = ls\<lparr>sel_users := Absent, sel_responses := Absent\<rparr>"

section \<open>Remote Store Client\<close>

text \<open>
  A request as \<^verbatim>\<open>fetchWithTimeout\<close> issues it: the path below \<^verbatim>\<open>API_URL\<close>, the method
  and the deadline in milliseconds after which the request is aborted.
\<close>

record request =
  url :: string
  http_method :: string
  timeout :: nat

text \<open>
  What the caller of \<^verbatim>\<open>fetchWithTimeout\<close> gets back: the promise rejects (network error
  or abort at the deadline), or a response arrives whose status is not in the 2xx range
  (\<^verbatim>\<open>!res.ok\<close>), or a 2xx response arrives with its JSON body.
\<close>

datatype 'a reply = Threw | Not_ok nat | Res_ok 'a

text \<open>
  The client side of the gateway: the local store and the log of the requests sent so
  far.
\<close>

record client =
  local_store :: localStorage
  sent :: "request list"

definition fetchWithTimeout ::
  "'a reply \<Rightarrow> string \<Rightarrow> string \<Rightarrow> nat \<Rightarrow> client \<Rightarrow> 'a reply \<times> client" where
  "fetchWithTimeout remote path meth ms c =
     (remote, c\<lparr>sent := sent c @ [\<lparr>url = path, http_method = meth, timeout = ms\<rparr>]\<rparr>)"

section \<open>Dual-Mode Data Gateway\<close>

text \<open>
  \<^verbatim>\<open>createUser\<close>.  \<open>remote\<close> is what the remote store answers to the one request the
  call sends, \<open>now\<close> is the value of \<^verbatim>\<open>Date.now()\<close> in the fallback.
\<close>

definition createUser ::
  "user reply \<Rightarrow> int \<Rightarrow> string \<Rightarrow> string \<Rightarrow> string \<Rightarrow> string \<Rightarrow> client
     \<Rightarrow> (error + user) \<times> client" where
  "createUser remote now nm av gr ge c =
     (let (res, c1) = fetchWithTimeout remote ''/login'' ''POST'' 3000 c
      in case res of
           Res_ok u \<Rightarrow> (Inr u, c1)
         | _ \<Rightarrow>
            (case read_item (sel_users (local_store c1)) of
               Inl e \<Rightarrow> (Inl e, c1)
             | Inr users \<Rightarrow>
                 let newUser = \<lparr>u_id = now, u_name = nm, u_avatar = av,
                                u_grade = gr, u_gender = ge\<rparr>
                 in (Inr newUser,
                     c1\<lparr>local_store :=
                          (local_store c1)\<lparr>sel_users := Json_array (users @ [newUser])\<rparr>\<rparr>)))"

text \<open>
  A sequence of \<^verbatim>\<open>createUser\<close> calls made while the remote store does not answer.  Each
  call is given by its clock reading and the four profile fields; the sequence stops at
  the first call that throws.
\<close>

fun createUser_offline ::
  "(int \<times> string \<times> string \<times> string \<times> string) list \<Rightarrow> client \<Rightarrow> error + client" where
  "createUser_offline [] c = Inr c"
| "createUser_offline ((now, nm, av, gr, ge) # calls) c =
     (case createUser Threw now nm av gr ge c of
        (Inl e, c') \<Rightarrow> Inl e
      | (Inr u, c') \<Rightarrow> createUser_offline calls c')"

datatype source = DB | LOCAL

text \<open>The smiley U+1F642 that stands in for the avatar of an unknown local user.\<close>

definition unknown_avatar :: string where
  "unknown_avatar = [CHR 0xF0, CHR 0x9F, CHR 0x99, CHR 0x82]"

text \<open>The callback of \<^verbatim>\<open>responses.map(r => ...)\<close> in \<^verbatim>\<open>fetchAllResponses\<close>.\<close>

definition joined :: "user list \<Rightarrow> response \<Rightarrow> row" where
  "joined users r =
     (case find (\<lambda>u. u_id u = r_user_id r) users of
        Some u \<Rightarrow>
          \<lparr> user_id = u_id u, user_name = u_name u, user_avatar = u_avatar u,
            user_grade = u_grade u, user_gender = u_gender u,
            question_id = r_question_id r, score = r_score r,
            timestamp = r_timestamp r \<rparr>
      | None \<Rightarrow>
          \<lparr> user_id = - 1, user_name = ''Unknown (Local)'', user_avatar = unknown_avatar,
            user_grade = [], user_gender = [],
            question_id = r_question_id r, score = r_score r,
            timestamp = r_timestamp r \<rparr>)"

text \<open>
  \<^verbatim>\<open>xs.sort((a, b) => time(b) - time(a))\<close>: \<^verbatim>\<open>Array.prototype.sort\<close> is stable, so this
  is the stable sort by descending time.
\<close>

definition sort_newest_first :: "('a \<Rightarrow> timestamp) \<Rightarrow> 'a list \<Rightarrow> 'a list" where
  "sort_newest_first time xs = sort_key (\<lambda>x. - time x) xs"

text \<open>The \<^verbatim>\<open>catch\<close> block of \<^verbatim>\<open>fetchAllResponses\<close>.\<close>

definition fetchAllResponses_local :: "localStorage \<Rightarrow> error + source \<times> row list" where
  "fetchAllResponses_local ls =
     (case read_item (sel_users ls) of
        Inl e \<Rightarrow> Inl e
      | Inr users \<Rightarrow>
         (case read_item (sel_responses ls) of
            Inl e \<Rightarrow> Inl e
          | Inr responses \<Rightarrow>
              Inr (LOCAL, sort_newest_first timestamp (map (joined users) responses))))"

definition fetchAllResponses ::
  "row list reply \<Rightarrow> client \<Rightarrow> (error + source \<times> row list) \<times> client" where
  "fetchAllResponses remote c =
     (let (res, c1) = fetchWithTimeout remote ''/admin/responses'' ''GET'' 5000 c
      in case res of
           Res_ok data \<Rightarrow> (Inr (DB, data), c1)
         | _ \<Rightarrow> (fetchAllResponses_local (local_store c1), c1))"

text \<open>The \<^verbatim>\<open>catch\<close> block of \<^verbatim>\<open>fetchUserResponses\<close>.\<close>

definition fetchUserResponses_local ::
  "int \<Rightarrow> localStorage \<Rightarrow> error + source \<times> response list" where
  "fetchUserResponses_local userId ls =
     (case read_item (sel_responses ls) of
        Inl e \<Rightarrow> Inl e
      | Inr responses \<Rightarrow>
          Inr (LOCAL,
               sort_newest_first r_timestamp (filter (\<lambda>r. r_user_id r = userId) responses)))"

text \<open>
  \<^verbatim>\<open>fetchUserResponses\<close>.  The path of the request is \<^verbatim>\<open>/users/${userId}/responses\<close>; the
  user id is kept out of the logged path.
\<close>

definition fetchUserResponses ::
  "response list reply \<Rightarrow> int \<Rightarrow> client
     \<Rightarrow> (error + source \<times> response list) \<times> client" where
  "fetchUserResponses remote userId c =
     (let (res, c1) = fetchWithTimeout remote ''/users/:id/responses'' ''GET'' 3000 c
      in case res of
           Res_ok data \<Rightarrow> (Inr (DB, data), c1)
         | _ \<Rightarrow> (fetchUserResponses_local userId (local_store c1), c1))"

section \<open>Remote store: the \<^verbatim>\<open>/api/sync\<close> handler\<close>

text \<open>
  The two tables of the SQLite database.  Both ids are
  \<^verbatim>\<open>INTEGER PRIMARY KEY AUTOINCREMENT\<close>: the id of a new row is one more than the largest
  id the table has ever handed out, kept here in \<open>users_seq\<close> and \<open>responses_seq\<close>
  (zero for a table never written to), and no statement of the server inserts an id of
  its own choosing.  The \<^verbatim>\<open>created_at\<close> column of \<^verbatim>\<open>users\<close> is filled in by the database
  and read by no code considered here; it is left out.
\<close>

record database =
  users_table :: "user list"
  users_seq :: nat
  responses_table :: "response list"
  responses_seq :: nat

text \<open>
  \<^verbatim>\<open>INSERT INTO users (name, avatar, grade, gender) VALUES (?, ?, ?, ?)\<close>, returning
  \<^verbatim>\<open>this.lastID\<close> with the new database.
\<close>

definition insert_user :: "database \<Rightarrow> user \<Rightarrow> int \<times> database" where
  "insert_user db u =
     (let lastID = int (Suc (users_seq db))
      in (lastID,
          db\<lparr>users_table := users_table db @ [u\<lparr>u_id := lastID\<rparr>],
             users_seq := Suc (users_seq db)\<rparr>))"

text \<open>
  \<^verbatim>\<open>INSERT INTO responses (user_id, question_id, score, timestamp) VALUES (?, ?, ?, ?)\<close>.
\<close>

definition insert_response ::
  "database \<Rightarrow> int \<Rightarrow> int \<Rightarrow> int \<Rightarrow> timestamp \<Rightarrow> int \<times> database" where
  "insert_response db uid qid sc ts =
     (let lastID = int (Suc (responses_seq db))
      in (lastID,
          db\<lparr>responses_table := responses_table db @
                 [\<lparr>r_id = lastID, r_user_id = uid, r_question_id = qid,
                   r_score = sc, r_timestamp = ts\<rparr>],
             responses_seq := Suc (responses_seq db)\<rparr>))"

text \<open>
  The variables of the handler: the database, \<^verbatim>\<open>userIdMap\<close>, the two counters, and
  whether one of the promises of the current phase was rejected.
\<close>

record sync_state =
  st_db :: database
  userIdMap :: "int \<rightharpoonup> int"
  syncedUsers :: nat
  syncedResponses :: nat
  rejected :: bool

text \<open>
  Step 1.  All the \<^verbatim>\<open>userStmt.run\<close> calls are queued at once and run in order; \<open>fails k\<close>
  says that the \<open>k\<close>-th statement of the whole run (counted from 0, users first, then
  responses) ends with an error.  A statement that fails rejects its promise and leaves
  the database as it was; the statements queued after it still run.
\<close>

fun run_user_inserts :: "(nat \<Rightarrow> bool) \<Rightarrow> nat \<Rightarrow> user list \<Rightarrow> sync_state \<Rightarrow> sync_state" where
  "run_user_inserts fails k [] st = st"
| "run_user_inserts fails k (u # rest) st =
     run_user_inserts fails (Suc k) rest
       (if fails k then st\<lparr>rejected := True\<rparr>
        else let (lastID, db') = insert_user (st_db st) u
             in st\<lparr>st_db := db',
                   userIdMap := (userIdMap st)(u_id u \<mapsto> lastID),
                   syncedUsers := Suc (syncedUsers st)\<rparr>)"

text \<open>
  \<^verbatim>\<open>userIdMap.get(resp.user_id) || resp.user_id\<close>: the right operand is taken when the
  left one is falsy, that is \<^verbatim>\<open>undefined\<close> or the number 0.
\<close>

definition dbUserId :: "(int \<rightharpoonup> int) \<Rightarrow> response \<Rightarrow> int" where
  "dbUserId m resp =
     (case m (r_user_id resp) of
        None \<Rightarrow> r_user_id resp
      | Some v \<Rightarrow> if v = 0 then r_user_id resp else v)"

text \<open>Step 2, run only when every promise of step 1 was fulfilled.\<close>

fun run_response_inserts ::
  "(nat \<Rightarrow> bool) \<Rightarrow> nat \<Rightarrow> response list \<Rightarrow> sync_state \<Rightarrow> sync_state" where
  "run_response_inserts fails k [] st = st"
| "run_response_inserts fails k (resp # rest) st =
     run_response_inserts fails (Suc k) rest
       (if fails k then st\<lparr>rejected := True\<rparr>
        else let (lastID, db') =
                   insert_response (st_db st) (dbUserId (userIdMap st) resp)
                     (r_question_id resp) (r_score resp) (r_timestamp resp)
             in st\<lparr>st_db := db', syncedResponses := Suc (syncedResponses st)\<rparr>)"

record sync_result =
  synced_users :: nat
  synced_responses :: nat

text \<open>The state after step 1 of a run that starts on database \<open>db\<close>.\<close>

definition sync_step1 :: "(nat \<Rightarrow> bool) \<Rightarrow> database \<Rightarrow> user list \<Rightarrow> sync_state" where
  "sync_step1 fails db users =
     run_user_inserts fails 0 users
       \<lparr>st_db = db, userIdMap = Map.empty, syncedUsers = 0, syncedResponses = 0,
        rejected = False\<rparr>"

text \<open>
  \<^verbatim>\<open>app.post('/api/sync', ...)\<close>.  A field missing from the request body is \<open>None\<close>.  The
  handler answers 400 when both fields are missing, 500 when a promise of step 1 or of
  step 2 was rejected, and 200 with the two counters otherwise.
\<close>

definition api_sync ::
  "(nat \<Rightarrow> bool) \<Rightarrow> database \<Rightarrow> user list option \<Rightarrow> response list option
     \<Rightarrow> sync_result reply \<times> database" where
  "api_sync fails db users responses =
     (if users = None \<and> responses = None then (Not_ok 400, db)
      else
        let us = (case users of None \<Rightarrow> [] | Some xs \<Rightarrow> xs);
            rs = (case responses of None \<Rightarrow> [] | Some xs \<Rightarrow> xs);
            st1 = sync_step1 fails db us
        in if rejected st1 then (Not_ok 500, st_db st1)
           else
             let st2 = run_response_inserts fails (length us) rs st1
             in if rejected st2 then (Not_ok 500, st_db st2)
                else (Res_ok \<lparr>synced_users = syncedUsers st2,
                              synced_responses = syncedResponses st2\<rparr>,
                      st_db st2))"

section \<open>Sync Reconciler (\<^verbatim>\<open>syncLocalToServer\<close>)\<close>

text \<open>
  What happens to the one request of a sync run on its way: it never reaches the server,
  or the server handles it but the answer does not arrive within the deadline, or the
  answer arrives.
\<close>

datatype link = Unreachable | Reply_lost | Delivered

text \<open>The remote end of the \<^verbatim>\<open>/sync\<close> request: the answer the client sees, and the database.\<close>

definition sync_remote ::
  "link \<Rightarrow> (nat \<Rightarrow> bool) \<Rightarrow> database \<Rightarrow> user list \<Rightarrow> response list
     \<Rightarrow> sync_result reply \<times> database" where
  "sync_remote lnk fails db localUsers localResponses =
     (case lnk of
        Unreachable \<Rightarrow> (Threw, db)
      | Reply_lost \<Rightarrow> (Threw, snd (api_sync fails db (Some localUsers) (Some localResponses)))
      | Delivered \<Rightarrow> api_sync fails db (Some localUsers) (Some localResponses))"

text \<open>
  \<^verbatim>\<open>syncLocalToServer\<close>.  The result is what the caller gets (an exception or the counters)
  together with the client and the database after the call.
\<close>

definition syncLocalToServer ::
  "link \<Rightarrow> (nat \<Rightarrow> bool) \<Rightarrow> database \<Rightarrow> client
     \<Rightarrow> (error + sync_result) \<times> client \<times> database" where
  "syncLocalToServer lnk fails db c =
     (case read_item (sel_users (local_store c)) of
        Inl e \<Rightarrow> (Inl e, c, db)
      | Inr localUsers \<Rightarrow>
         (case read_item (sel_responses (local_store c)) of
            Inl e \<Rightarrow> (Inl e, c, db)
          | Inr localResponses \<Rightarrow>
              if length localUsers = 0 \<and> length localResponses = 0
              then (Inr \<lparr>synced_users = 0, synced_responses = 0\<rparr>, c, db)
              else
                let (remote, db') = sync_remote lnk fails db localUsers localResponses;
                    (res, c1) = fetchWithTimeout remote ''/sync'' ''POST'' 10000 c
                in (case res of
                      Threw \<Rightarrow> (Inl Fetch_failed, c1, db')
                    | Not_ok status \<Rightarrow> (Inl Sync_failed, c1, db')
                    | Res_ok result \<Rightarrow>
                        (Inr result,
                         c1\<lparr>local_store := clearLocalData (local_store c1)\<rparr>, db'))))"

section \<open>Auxiliary notions for the proofs\<close>

text \<open>
  The answer that the map of the aggregation loop holds for user \<open>u\<close> and question \<open>q\<close>.
\<close>

definition answer_in :: "(int \<times> student_summary) list \<Rightarrow> int \<Rightarrow> int \<Rightarrow> int option" where
  "answer_in m u q =
     (case map_of m u of None \<Rightarrow> None | Some s \<Rightarrow> map_of (answers s) q)"

text \<open>A property that every entry of the map of the aggregation loop has.\<close>

definition every_summary ::
  "(int \<Rightarrow> student_summary \<Rightarrow> bool) \<Rightarrow> (int \<times> student_summary) list \<Rightarrow> bool" where
  "every_summary P m = (\<forall>(k, s) \<in> set m. P k s)"

text \<open>
  The elements of a list whose statement did not fail, when the first element is the
  \<open>k\<close>-th statement of the run.
\<close>

fun succeeded :: "(nat \<Rightarrow> bool) \<Rightarrow> nat \<Rightarrow> 'a list \<Rightarrow> 'a list" where
  "succeeded fails k [] = []"
| "succeeded fails k (x # xs) = (if fails k then [] else [x]) @ succeeded fails (Suc k) xs"

text \<open>The columns of a row of either table apart from the id that the database assigns.\<close>

definition user_fields :: "user \<Rightarrow> string \<times> string \<times> string \<times> string" where
  "user_fields u = (u_name u, u_avatar u, u_grade u, u_gender u)"

definition response_fields :: "response \<Rightarrow> int \<times> int \<times> int \<times> timestamp" where
  "response_fields r = (r_user_id r, r_question_id r, r_score r, r_timestamp r)"

text \<open>The rows that database \<open>db'\<close> has after those of \<open>db\<close>.\<close>

definition created_users :: "database \<Rightarrow> database \<Rightarrow> user list" where
  "created_users db db' = drop (length (users_table db)) (users_table db')"

definition created_responses :: "database \<Rightarrow> database \<Rightarrow> response list" where
  "created_responses db db' = drop (length (responses_table db)) (responses_table db')"


text \<open>The one request of a sync run, and the one of \<^verbatim>\<open>createUser\<close>.\<close>

definition sync_request :: request where
  "sync_request = \<lparr>url = ''/sync'', http_method = ''POST'', timeout = 10000\<rparr>"

definition login_request :: request where
  "login_request = \<lparr>url = ''/login'', http_method = ''POST'', timeout = 3000\<rparr>"

section \<open>Example data\<close>

text \<open>One pupil who answered questions 1 and 2 of a question set of size 3.\<close>

definition ex_rows :: "row list" where
  "ex_rows =
     [\<lparr>user_id = 1, user_name = ''Mei'', user_avatar = ''cat'', user_grade = ''3'',
       user_gender = ''F'', question_id = 1, score = 5, timestamp = 2000\<rparr>,
      \<lparr>user_id = 1, user_name = ''Mei'', user_avatar = ''cat'', user_grade = ''3'',
       user_gender = ''F'', question_id = 2, score = 3, timestamp = 1000\<rparr>]"

definition ex_summary :: student_summary where
  "ex_summary =
     \<lparr>s_user_id = 1, name = ''Mei'', avatar = ''cat'', grade = ''3'', gender = ''F'',
      answers = [(1, 5), (2, 3)], last_timestamp = 2000\<rparr>"

definition ex_questions :: "question list" where
  "ex_questions =
     [\<lparr>q_id = 1, q_text = ''a'', image_filename = ''a.png''\<rparr>,
      \<lparr>q_id = 2, q_text = ''b'', image_filename = ''b.png''\<rparr>,
      \<lparr>q_id = 3, q_text = ''c'', image_filename = ''c.png''\<rparr>]"

text \<open>
  The same pupil with a second answer to a question 7 that the question set does not
  have (a row that \<^verbatim>\<open>loadData\<close> labels \<^verbatim>\<open>'Unknown Question'\<close>).
\<close>

definition stray_rows :: "row list" where
  "stray_rows =
     [\<lparr>user_id = 1, user_name = ''Mei'', user_avatar = ''cat'', user_grade = ''3'',
       user_gender = ''F'', question_id = 1, score = 5, timestamp = 2000\<rparr>,
      \<lparr>user_id = 1, user_name = ''Mei'', user_avatar = ''cat'', user_grade = ''3'',
       user_gender = ''F'', question_id = 7, score = 3, timestamp = 1000\<rparr>]"

definition stray_summary :: student_summary where
  "stray_summary =
     \<lparr>s_user_id = 1, name = ''Mei'', avatar = ''cat'', grade = ''3'', gender = ''F'',
      answers = [(1, 5), (7, 3)], last_timestamp = 2000\<rparr>"

text \<open>
  A summary with the scores 1, 1 and \<open>2 ^ 53\<close>, recorded for the questions 2, 3 and 1 in
  that order.
\<close>

definition large_summary :: student_summary where
  "large_summary =
     \<lparr>s_user_id = 1, name = ''Mei'', avatar = ''cat'', grade = ''3'', gender = ''F'',
      answers = [(2, 1), (3, 1), (1, 9007199254740992)], last_timestamp = 2000\<rparr>"

text \<open>
  A local store with one known user and three responses, two of which belong to the
  users 7 and 9 that the local user collection does not have.
\<close>

definition ex_user :: user where
  "ex_user = \<lparr>u_id = 1, u_name = ''Mei'', u_avatar = ''cat'', u_grade = ''3'', u_gender = ''F''\<rparr>"

definition ex_response :: "int \<Rightarrow> int \<Rightarrow> int \<Rightarrow> int \<Rightarrow> timestamp \<Rightarrow> response" where
  "ex_response i u q sc ts =
     \<lparr>r_id = i, r_user_id = u, r_question_id = q, r_score = sc, r_timestamp = ts\<rparr>"

definition orphan_store :: localStorage where
  "orphan_store =
     \<lparr>sel_users = Json_array [ex_user],
      sel_responses =
        Json_array [ex_response 11 1 1 4 1000, ex_response 12 7 1 5 2000,
                    ex_response 13 9 2 3 3000]\<rparr>"

definition orphan_rows :: "row list" where
  "orphan_rows =
     [\<lparr>user_id = - 1, user_name = ''Unknown (Local)'', user_avatar = unknown_avatar,
       user_grade = [], user_gender = [], question_id = 2, score = 3, timestamp = 3000\<rparr>,
      \<lparr>user_id = - 1, user_name = ''Unknown (Local)'', user_avatar = unknown_avatar,
       user_grade = [], user_gender = [], question_id = 1, score = 5, timestamp = 2000\<rparr>,
      \<lparr>user_id = 1, user_name = ''Mei'', user_avatar = ''cat'', user_grade = ''3'',
       user_gender = ''F'', question_id = 1, score = 4, timestamp = 1000\<rparr>]"

text \<open>
  A client holding that store, and a database that already has one user and one response.
  After a sync in which nothing fails, the local user 1 is the user 2 of the database; the
  responses of the missing users 7 and 9 keep their user ids.
\<close>

definition ex_client :: client where
  "ex_client = \<lparr>local_store = orphan_store, sent = []\<rparr>"

definition ex_database :: database where
  "ex_database =
     \<lparr>users_table =
        [\<lparr>u_id = 1, u_name = ''Lin'', u_avatar = ''dog'', u_grade = ''4'', u_gender = ''M''\<rparr>],
      users_seq = 1,
      responses_table = [ex_response 1 1 1 2 500],
      responses_seq = 1\<rparr>"

definition ex_database_after :: database where
  "ex_database_after =
     \<lparr>users_table =
        [\<lparr>u_id = 1, u_name = ''Lin'', u_avatar = ''dog'', u_grade = ''4'', u_gender = ''M''\<rparr>,
         \<lparr>u_id = 2, u_name = ''Mei'', u_avatar = ''cat'', u_grade = ''3'', u_gender = ''F''\<rparr>],
      users_seq = 2,
      responses_table =
        [ex_response 1 1 1 2 500, ex_response 2 2 1 4 1000, ex_response 3 7 1 5 2000,
         ex_response 4 9 2 3 3000],
      responses_seq = 4\<rparr>"

definition ex_client_after :: client where
  "ex_client_after =
     \<lparr>local_store = \<lparr>sel_users = Absent, sel_responses = Absent\<rparr>,
      sent = [\<lparr>url = ''/sync'', http_method = ''POST'', timeout = 10000\<rparr>]\<rparr>"

text \<open>
  Two failure oracles: no statement fails; the statement number 2 (counted from 0) fails,
  which for the client above is the insert of its second response.
\<close>

definition no_failure :: "nat \<Rightarrow> bool" where
  "no_failure k = False"

definition third_fails :: "nat \<Rightarrow> bool" where
  "third_fails k = (k = 2)"


text \<open>
  Two \<^verbatim>\<open>createUser\<close> calls in the same millisecond, two calls one millisecond apart,
  and a client whose local store is empty.
\<close>

definition two_calls :: "(int \<times> string \<times> string \<times> string \<times> string) list" where
  "two_calls =
     [(1700000000000, ''Mei'', ''cat'', ''3'', ''F''),
      (1700000000000, ''Lin'', ''dog'', ''4'', ''M'')]"

definition later_calls :: "(int \<times> string \<times> string \<times> string \<times> string) list" where
  "later_calls =
     [(1700000000000, ''Mei'', ''cat'', ''3'', ''F''),
      (1700000000001, ''Lin'', ''dog'', ''4'', ''M'')]"

definition empty_client :: client where
  "empty_client = \<lparr>local_store = \<lparr>sel_users = Absent, sel_responses = Absent\<rparr>, sent = []\<rparr>"

section \<open>Properties of the \<^verbatim>\<open>Map\<close> model\<close>

lemma map_of_Map_set: "map_of (Map_set m k v) = (map_of m)(k \<mapsto> v)"
  by (induction m) (auto simp: fun_eq_iff)

lemma keys_Map_set:
  "map fst (Map_set m k v) = (if k \<in> set (map fst m) then map fst m else map fst m @ [k])"
  by (induction m) (auto simp: rev_image_eqI)

lemma Map_has_iff: "Map_has m k \<longleftrightarrow> k \<in> set (map fst m)"
  by (auto simp: Map_has_def map_of_eq_None_iff split: option.splits)
     (metis domI domIff map_of_eq_None_iff  set_map)+

lemma set_Map_set_subset: "set (Map_set m k v) \<subseteq> insert (k, v) (set m)"
  by (induction m) (auto split: if_splits)

lemma answer_in_process_row:
  "answer_in (process_row m r) u q =
     (case answer_in m u q of
        Some v \<Rightarrow> Some v
      | None \<Rightarrow> if user_id r = u \<and> question_id r = q then Some (score r) else None)"
  by (auto simp: answer_in_def process_row_def open_summary_def record_answer_def
        touch_timestamp_def Let_def Map_get_def Map_has_def map_of_Map_set new_summary_def
      split: option.splits)

lemma find_snoc:
  "find P (xs @ [x]) = (case find P xs of Some y \<Rightarrow> Some y | None \<Rightarrow> if P x then Some x else None)"
  by (induction xs) auto

lemma answer_in_foldl:
  "answer_in (foldl process_row [] rows) u q =
     map_option score (find (\<lambda>r. user_id r = u \<and> question_id r = q) rows)"
proof (induction rows rule: rev_induct)
  case Nil
  show ?case by (simp add: answer_in_def)
next
  case (snoc r rows)
  show ?case
    by (simp add: answer_in_process_row snoc find_snoc split: option.splits)
qed

lemma every_summary_Map_set: "every_summary P m \<Longrightarrow> P k s \<Longrightarrow> every_summary P (Map_set m k s)"
  using set_Map_set_subset [of m k s] by (auto simp: every_summary_def)

lemma every_summary_process_row:
  assumes m: "every_summary P m"
    and new: "P (user_id r) (new_summary r)"
    and upd: "\<And>s. P (user_id r) s \<Longrightarrow> P (user_id r) (touch_timestamp (record_answer s r) r)"
  shows "every_summary P (process_row m r)"
proof -
  have m1: "every_summary P (open_summary m r)"
    using m new by (simp add: open_summary_def every_summary_Map_set)
  show ?thesis
  proof (cases "Map_get (open_summary m r) (user_id r)")
    case None
    then show ?thesis using m1 by (simp add: process_row_def)
  next
    case (Some student)
    then have "(user_id r, student) \<in> set (open_summary m r)"
      by (simp add: Map_get_def map_of_SomeD)
    with m1 have "P (user_id r) student"
      by (auto simp: every_summary_def)
    then show ?thesis
      using m1 Some by (simp add: process_row_def every_summary_Map_set upd)
  qed
qed

lemma every_summary_foldl:
  assumes new: "\<And>r. P (user_id r) (new_summary r)"
    and upd: "\<And>r s. P (user_id r) s \<Longrightarrow> P (user_id r) (touch_timestamp (record_answer s r) r)"
  shows "every_summary P (foldl process_row [] rows)"
proof (induction rows rule: rev_induct)
  case Nil
  show ?case by (simp add: every_summary_def)
next
  case (snoc r rows)
  then show ?case by (simp add: every_summary_process_row new upd)
qed

lemma keyed_foldl: "every_summary (\<lambda>k s. s_user_id s = k) (foldl process_row [] rows)"
  by (rule every_summary_foldl)
     (simp_all add: new_summary_def touch_timestamp_def record_answer_def)

lemma find_keyed:
  "every_summary (\<lambda>k s. s_user_id s = k) m \<Longrightarrow> find (\<lambda>s. s_user_id s = u) (map snd m) = map_of m u"
  by (induction m) (auto simp: every_summary_def)

lemma answer_of_studentSummaries:
  "answer_of (studentSummaries rows) u q =
     map_option score (find (\<lambda>r. user_id r = u \<and> question_id r = q) rows)"
  using answer_in_foldl [of rows u q] find_keyed [OF keyed_foldl, of u rows]
  unfolding answer_of_def studentSummaries_def Map_values_def answer_in_def Map_get_def
  by simp

lemma keys_process_row:
  "map fst (process_row m r) =
     (if user_id r \<in> set (map fst m) then map fst m else map fst m @ [user_id r])"
  by (auto simp: process_row_def open_summary_def Let_def keys_Map_set Map_has_iff Map_get_def
      split: option.splits)

lemma keys_foldl:
  "distinct (map fst (foldl process_row [] rows)) \<and>
   set (map fst (foldl process_row [] rows)) = user_id ` set rows"
  by (induction rows rule: rev_induct) (auto simp: keys_process_row)

lemma ids_studentSummaries:
  "map s_user_id (studentSummaries rows) = map fst (foldl process_row [] rows)"
  using keyed_foldl [of rows]
  by (auto simp: studentSummaries_def Map_values_def every_summary_def)

lemma length_filter_eq:
  "distinct xs \<Longrightarrow> x \<in> set xs \<Longrightarrow> length (filter (\<lambda>y. y = x) xs) = 1"
  by (induction xs) (auto simp: filter_empty_conv)

lemma one_summary_per_user:
  assumes "r \<in> set rows"
  shows "length (filter (\<lambda>s. s_user_id s = user_id r) (studentSummaries rows)) = 1"
proof -
  have "length (filter (\<lambda>s. s_user_id s = user_id r) (studentSummaries rows))
      = length (filter (\<lambda>y. y = user_id r) (map s_user_id (studentSummaries rows)))"
    by (simp add: filter_map comp_def)
  also have "\<dots> = 1"
    using keys_foldl [of rows] assms
    by (intro length_filter_eq) (auto simp: ids_studentSummaries)
  finally show ?thesis .
qed

lemma summary_ids: "s_user_id ` set (studentSummaries rows) = user_id ` set rows"
  using keys_foldl [of rows] ids_studentSummaries [of rows]
  by (metis list.set_map)

lemma joined_orphan:
  "find (\<lambda>u. u_id u = r_user_id r) users = None \<Longrightarrow>
   joined users r =
     \<lparr> user_id = - 1, user_name = ''Unknown (Local)'', user_avatar = unknown_avatar,
       user_grade = [], user_gender = [],
       question_id = r_question_id r, score = r_score r, timestamp = r_timestamp r \<rparr>"
  by (simp add: joined_def)

lemma user_id_joined:
  "user_id (joined users r) = - 1 \<or> user_id (joined users r) \<in> u_id ` set users"
  by (auto simp: joined_def find_Some_iff split: option.splits)

lemma fallback_rows:
  assumes "fst (fetchAllResponses remote c) = Inr (LOCAL, data)"
    and "read_item (sel_users (local_store c)) = Inr users"
    and "read_item (sel_responses (local_store c)) = Inr responses"
  shows "data = sort_newest_first timestamp (map (joined users) responses)"
  using assms
  by (auto simp: fetchAllResponses_def fetchWithTimeout_def fetchAllResponses_local_def
      split: reply.splits)

lemma orphan_row:
  assumes "fst (fetchAllResponses remote c) = Inr (LOCAL, data)"
    and "read_item (sel_users (local_store c)) = Inr users"
    and "read_item (sel_responses (local_store c)) = Inr responses"
    and "r \<in> set responses"
    and "find (\<lambda>u. u_id u = r_user_id r) users = None"
  shows "joined users r =
           \<lparr> user_id = - 1, user_name = ''Unknown (Local)'', user_avatar = unknown_avatar,
             user_grade = [], user_gender = [],
             question_id = r_question_id r, score = r_score r, timestamp = r_timestamp r \<rparr>
       \<and> joined users r \<in> set data
       \<and> length (filter (\<lambda>s. s_user_id s = - 1) (studentSummaries data)) = 1
       \<and> (\<forall>s \<in> set (studentSummaries data). s_user_id s = - 1 \<or> s_user_id s \<in> u_id ` set users)
       \<and> answer_of (studentSummaries data) (- 1) (r_question_id r) \<noteq> None"
proof -
  have data: "data = sort_newest_first timestamp (map (joined users) responses)"
    using assms(1-3) by (rule fallback_rows)
  have j: "joined users r = \<lparr> user_id = - 1, user_name = ''Unknown (Local)'', user_avatar = unknown_avatar,
             user_grade = [], user_gender = [],
             question_id = r_question_id r, score = r_score r, timestamp = r_timestamp r \<rparr>"
    using assms(5) by (rule joined_orphan)
  have mem: "joined users r \<in> set data"
    using assms(4) by (simp add: data sort_newest_first_def)
  have uid: "user_id (joined users r) = - 1" and qid: "question_id (joined users r) = r_question_id r"
    by (simp_all add: j)
  have one: "length (filter (\<lambda>s. s_user_id s = - 1) (studentSummaries data)) = 1"
    using one_summary_per_user [OF mem] by (simp add: uid)
  have ids: "\<forall>s \<in> set (studentSummaries data). s_user_id s = - 1 \<or> s_user_id s \<in> u_id ` set users"
  proof
    fix s assume "s \<in> set (studentSummaries data)"
    then have "s_user_id s \<in> user_id ` set data"
      using summary_ids [of data] by blast
    then obtain r' where "s_user_id s = user_id (joined users r')"
      by (auto simp: data sort_newest_first_def)
    then show "s_user_id s = - 1 \<or> s_user_id s \<in> u_id ` set users"
      using user_id_joined [of users r'] by simp
  qed
  have "find (\<lambda>x. user_id x = - 1 \<and> question_id x = r_question_id r) data \<noteq> None"
    using mem uid qid by (auto simp: find_None_iff)
  then have answer_in: "answer_of (studentSummaries data) (- 1) (r_question_id r) \<noteq> None"
    by (simp add: answer_of_studentSummaries)
  show ?thesis using j mem one ids answer_in by blast
qed

lemmas aggregator_defs =
  studentSummaries_def process_row_def open_summary_def record_answer_def
  touch_timestamp_def new_summary_def Map_values_def Map_get_def Map_has_def Map_size_def

lemma studentSummaries_ex_rows: "studentSummaries ex_rows = [ex_summary]"
  by (simp add: ex_rows_def ex_summary_def aggregator_defs)

lemma studentSummaries_stray_rows: "studentSummaries stray_rows = [stray_summary]"
  by (simp add: stray_rows_def stray_summary_def aggregator_defs)

section \<open>Response Aggregator: the first row of a pair wins\<close>

text \<open>
  Claim C3.  Whatever the input rows are, the answer that the summaries hold for a user
  and a question is the score of the first row, in input order, that mentions this user
  and this question; every later row of the pair is skipped, and a pair that no row
  mentions has no answer.  In particular, for the two rows of user 1 and question 1 with
  scores 5 (time \<open>T2\<close>) and 2 (time \<open>T1\<close>), fed in that order, the summary of user 1 has
  \<^verbatim>\<open>answers[1] = 5\<close>.
\<close>

theorem aggregator_first_row_wins:
  "answer_of (studentSummaries rawData) u q =
     map_option score (find (\<lambda>r. user_id r = u \<and> question_id r = q) rawData)
   \<and> answer_of
        (studentSummaries
           [\<lparr>user_id = 1, user_name = n, user_avatar = a, user_grade = g, user_gender = s,
              question_id = 1, score = 5, timestamp = T2\<rparr>,
            \<lparr>user_id = 1, user_name = n', user_avatar = a', user_grade = g', user_gender = s',
              question_id = 1, score = 2, timestamp = T1\<rparr>]) 1 1 = Some 5"
  by (simp add: answer_of_studentSummaries)

section \<open>Totals and progress of a summary\<close>

lemma bit_width_numeral:
  "bit_width 0 = 0"
  "bit_width 1 = 1"
  "bit_width (Suc 0) = 1"
  "bit_width (numeral k) = Suc (bit_width (numeral k div 2))"
  by (subst bit_width.simps, simp)+

lemmas totals_defs =
  panel_totalScore_def csv_totalScore_def allQuestionIds_def csv_progress_def
  panel_answerCount_def panel_totalQuestions_def Map_values_def Map_get_def Map_size_def
  to_double_def round_significand_def bit_width_numeral

text \<open>
  The two totals add doubles: with the scores 1, 1 and \<open>2 ^ 53\<close> the dashboard adds in the
  order of recording and the export in the order of the columns, and the results differ.
\<close>

lemma totals_round_like_doubles:
  "panel_totalScore large_summary = Finite 9007199254740994
   \<and> csv_totalScore ex_questions large_summary = Finite 9007199254740992"
  by (simp add: totals_defs large_summary_def ex_questions_def Let_def)

text \<open>
  Claim C9, at the input where the code departs from it.  The claim holds of the
  dashboard and, in its example, of both paths: recorded answers \<open>{1:5, 2:3}\<close> and a
  question set of size 3 give the total 8 on the dashboard and in the CSV export, and
  the progress \<open>2/3\<close>.  For the rows of one pupil with the answers \<open>{1:5, 7:3}\<close>, where
  question 7 is not in the question set \<open>{1, 2, 3}\<close>, the summary has 2 recorded answers,
  the dashboard total is their sum 8 and the progress of the export is \<open>2/3\<close>, but the
  total of the export is 5: \<^verbatim>\<open>exportCSV\<close> leaves the score of question 7 out.
\<close>

theorem export_total_skips_unknown_question:
  "studentSummaries ex_rows = [ex_summary]
   \<and> panel_totalScore ex_summary = Finite 8
   \<and> csv_totalScore ex_questions ex_summary = Finite 8
   \<and> csv_progress ex_questions ex_summary = ''2/3''
   \<and> studentSummaries stray_rows = [stray_summary]
   \<and> Map_values (answers stray_summary) = [5, 3]
   \<and> panel_answerCount stray_summary = 2
   \<and> panel_totalQuestions ex_questions = 3
   \<and> panel_totalScore stray_summary = Finite 8
   \<and> csv_progress ex_questions stray_summary = ''2/3''
   \<and> csv_totalScore ex_questions stray_summary = Finite 5"
proof -
  have ex: "panel_totalScore ex_summary = Finite 8"
    "csv_totalScore ex_questions ex_summary = Finite 8"
    "csv_progress ex_questions ex_summary = ''2/3''"
    by (simp_all add: totals_defs ex_summary_def ex_questions_def Let_def)
  have stray: "Map_values (answers stray_summary) = [5, 3]"
    "panel_answerCount stray_summary = 2"
    "panel_totalQuestions ex_questions = 3"
    "panel_totalScore stray_summary = Finite 8"
    "csv_progress ex_questions stray_summary = ''2/3''"
    "csv_totalScore ex_questions stray_summary = Finite 5"
    by (simp_all add: totals_defs stray_summary_def ex_questions_def Let_def)
  show ?thesis
    by (intro conjI) (fact studentSummaries_ex_rows studentSummaries_stray_rows ex stray)+
qed

section \<open>Unknown local users share one summary\<close>

lemma fallback_orphan_rows:
  "fst (fetchAllResponses Threw \<lparr>local_store = orphan_store, sent = []\<rparr>)
     = Inr (LOCAL, orphan_rows)"
  by (simp add: fetchAllResponses_def fetchWithTimeout_def fetchAllResponses_local_def
      read_item_def orphan_store_def orphan_rows_def ex_user_def ex_response_def
      sort_newest_first_def joined_def)

text \<open>
  Claim C10.  In the local fallback of \<^verbatim>\<open>fetchAllResponses\<close>, a response whose user id
  matches no user of the local user collection is emitted with the user id \<open>-1\<close>, the
  name \<^verbatim>\<open>Unknown (Local)\<close>, the smiley avatar and empty grade and gender.  Hence for two
  such responses, also of different missing users, the aggregator holds exactly one
  summary with the id \<open>-1\<close>, that summary has an answer for the question of each of them,
  and every summary has the id \<open>-1\<close> or the id of a local user: there is no summary per
  missing user.
\<close>

theorem orphans_share_one_summary:
  assumes "fst (fetchAllResponses remote c) = Inr (LOCAL, data)"
    and "read_item (sel_users (local_store c)) = Inr users"
    and "read_item (sel_responses (local_store c)) = Inr responses"
    and "r1 \<in> set responses" and "find (\<lambda>u. u_id u = r_user_id r1) users = None"
    and "r2 \<in> set responses" and "find (\<lambda>u. u_id u = r_user_id r2) users = None"
    and "r_user_id r1 \<noteq> r_user_id r2"
  shows "joined users r1 =
           \<lparr> user_id = - 1, user_name = ''Unknown (Local)'', user_avatar = unknown_avatar,
             user_grade = [], user_gender = [],
             question_id = r_question_id r1, score = r_score r1, timestamp = r_timestamp r1 \<rparr>
       \<and> joined users r2 =
           \<lparr> user_id = - 1, user_name = ''Unknown (Local)'', user_avatar = unknown_avatar,
             user_grade = [], user_gender = [],
             question_id = r_question_id r2, score = r_score r2, timestamp = r_timestamp r2 \<rparr>
       \<and> joined users r1 \<in> set data \<and> joined users r2 \<in> set data
       \<and> length (filter (\<lambda>s. s_user_id s = - 1) (studentSummaries data)) = 1
       \<and> (\<forall>s \<in> set (studentSummaries data). s_user_id s = - 1 \<or> s_user_id s \<in> u_id ` set users)
       \<and> answer_of (studentSummaries data) (- 1) (r_question_id r1) \<noteq> None
       \<and> answer_of (studentSummaries data) (- 1) (r_question_id r2) \<noteq> None"
  using orphan_row [OF assms(1-3) assms(4,5)] orphan_row [OF assms(1-3) assms(6,7)]
  by blast

theorem orphans_share_one_summary_witness:
  "fst (fetchAllResponses Threw \<lparr>local_store = orphan_store, sent = []\<rparr>)
     = Inr (LOCAL, orphan_rows)
   \<and> ex_response 12 7 1 5 2000 \<in> set [ex_response 11 1 1 4 1000, ex_response 12 7 1 5 2000,
                    ex_response 13 9 2 3 3000]
   \<and> find (\<lambda>u. u_id u = r_user_id (ex_response 12 7 1 5 2000)) [ex_user] = None
   \<and> find (\<lambda>u. u_id u = r_user_id (ex_response 13 9 2 3 3000)) [ex_user] = None
   \<and> r_user_id (ex_response 12 7 1 5 2000) \<noteq> r_user_id (ex_response 13 9 2 3 3000)
   \<and> length (filter (\<lambda>s. s_user_id s = - 1) (studentSummaries orphan_rows)) = 1
   \<and> answer_of (studentSummaries orphan_rows) (- 1) 1 \<noteq> None
   \<and> answer_of (studentSummaries orphan_rows) (- 1) 2 \<noteq> None"
proof -
  let ?c = "\<lparr>local_store = orphan_store, sent = []\<rparr>"
  let ?rs = "[ex_response 11 1 1 4 1000, ex_response 12 7 1 5 2000, ex_response 13 9 2 3 3000]"
  have h1: "fst (fetchAllResponses Threw ?c) = Inr (LOCAL, orphan_rows)"
    by (rule fallback_orphan_rows)
  have h2: "read_item (sel_users (local_store ?c)) = Inr [ex_user]"
    and h3: "read_item (sel_responses (local_store ?c)) = Inr ?rs"
    by (simp_all add: read_item_def orphan_store_def)
  have h4: "ex_response 12 7 1 5 2000 \<in> set ?rs" and h6: "ex_response 13 9 2 3 3000 \<in> set ?rs"
    by simp_all
  have h5: "find (\<lambda>u. u_id u = r_user_id (ex_response 12 7 1 5 2000)) [ex_user] = None"
    and h7: "find (\<lambda>u. u_id u = r_user_id (ex_response 13 9 2 3 3000)) [ex_user] = None"
    and h8: "r_user_id (ex_response 12 7 1 5 2000) \<noteq> r_user_id (ex_response 13 9 2 3 3000)"
    by (simp_all add: ex_user_def ex_response_def)
  show ?thesis
    using h1 h4 h5 h7 h8 orphans_share_one_summary [OF h1 h2 h3 h4 h5 h6 h7 h8]
    by (simp add: ex_response_def)
qed

section \<open>Properties of the \<^verbatim>\<open>/api/sync\<close> handler\<close>

lemma user_fields_id [simp]: "user_fields (u\<lparr>u_id := i\<rparr>) = user_fields u"
  by (simp add: user_fields_def)

lemma response_fields_make [simp]:
  "response_fields \<lparr>r_id = i, r_user_id = u, r_question_id = q, r_score = sc, r_timestamp = ts\<rparr>
     = (u, q, sc, ts)"
  by (simp add: response_fields_def)

lemma succeeded_all: "(\<forall>i<length xs. \<not> fails (k + i)) \<Longrightarrow> succeeded fails k xs = xs"
proof (induction xs arbitrary: k)
  case Nil
  show ?case by simp
next
  case (Cons x xs)
  have "\<not> fails k" using Cons.prems by force
  moreover have "\<forall>i<length xs. \<not> fails (Suc k + i)"
    using Cons.prems by force
  ultimately show ?case using Cons.IH [of "Suc k"] by simp
qed

lemma rejected_users:
  "rejected (run_user_inserts fails k us st) \<longleftrightarrow> rejected st \<or> (\<exists>i<length us. fails (k + i))"
proof (induction us arbitrary: k st)
  case Nil
  show ?case by simp
next
  case (Cons u us)
  have "(\<exists>i<length (u # us). fails (k + i)) \<longleftrightarrow> fails k \<or> (\<exists>i<length us. fails (Suc k + i))"
    by (auto simp: less_Suc_eq_0_disj)
  then show ?case
    by (simp add: Cons.IH split: prod.splits)
qed

lemma rejected_responses:
  "rejected (run_response_inserts fails k rs st) \<longleftrightarrow> rejected st \<or> (\<exists>i<length rs. fails (k + i))"
proof (induction rs arbitrary: k st)
  case Nil
  show ?case by simp
next
  case (Cons r rs)
  have "(\<exists>i<length (r # rs). fails (k + i)) \<longleftrightarrow> fails k \<or> (\<exists>i<length rs. fails (Suc k + i))"
    by (auto simp: less_Suc_eq_0_disj)
  then show ?case
    by (simp add: Cons.IH split: prod.splits)
qed

lemma users_run:
  "\<exists>new. users_table (st_db (run_user_inserts fails k us st)) = users_table (st_db st) @ new
      \<and> map user_fields new = map user_fields (succeeded fails k us)
      \<and> syncedUsers (run_user_inserts fails k us st) = syncedUsers st + length (succeeded fails k us)
      \<and> responses_table (st_db (run_user_inserts fails k us st)) = responses_table (st_db st)
      \<and> responses_seq (st_db (run_user_inserts fails k us st)) = responses_seq (st_db st)
      \<and> syncedResponses (run_user_inserts fails k us st) = syncedResponses st"
proof (induction us arbitrary: k st)
  case Nil
  show ?case by simp
next
  case (Cons u us)
  show ?case
  proof (cases "fails k")
    case True
    then show ?thesis using Cons.IH [of "Suc k" "st\<lparr>rejected := True\<rparr>"] by simp
  next
    case False
    let ?st = "st\<lparr>st_db := snd (insert_user (st_db st) u),
                   userIdMap := (userIdMap st)(u_id u \<mapsto> fst (insert_user (st_db st) u)),
                   syncedUsers := Suc (syncedUsers st)\<rparr>"
    from Cons.IH [of "Suc k" ?st] obtain new where
      "users_table (st_db (run_user_inserts fails (Suc k) us ?st)) = users_table (st_db ?st) @ new"
      "map user_fields new = map user_fields (succeeded fails (Suc k) us)"
      "syncedUsers (run_user_inserts fails (Suc k) us ?st) = syncedUsers ?st + length (succeeded fails (Suc k) us)"
      "responses_table (st_db (run_user_inserts fails (Suc k) us ?st)) = responses_table (st_db ?st)"
      "responses_seq (st_db (run_user_inserts fails (Suc k) us ?st)) = responses_seq (st_db ?st)"
      "syncedResponses (run_user_inserts fails (Suc k) us ?st) = syncedResponses ?st"
      by blast
    then show ?thesis
      using False
      by (intro exI [of _ "u\<lparr>u_id := int (Suc (users_seq (st_db st)))\<rparr> # new"])
         (simp add: insert_user_def Let_def)
  qed
qed


lemma responses_run:
  "\<exists>new. responses_table (st_db (run_response_inserts fails k rs st))
        = responses_table (st_db st) @ new
      \<and> map response_fields new =
          map (\<lambda>r. (dbUserId (userIdMap st) r, r_question_id r, r_score r, r_timestamp r))
            (succeeded fails k rs)
      \<and> syncedResponses (run_response_inserts fails k rs st)
          = syncedResponses st + length (succeeded fails k rs)
      \<and> users_table (st_db (run_response_inserts fails k rs st)) = users_table (st_db st)
      \<and> syncedUsers (run_response_inserts fails k rs st) = syncedUsers st
      \<and> userIdMap (run_response_inserts fails k rs st) = userIdMap st"
proof (induction rs arbitrary: k st)
  case Nil
  show ?case by simp
next
  case (Cons r rs)
  show ?case
  proof (cases "fails k")
    case True
    then show ?thesis using Cons.IH [of "Suc k" "st\<lparr>rejected := True\<rparr>"] by simp
  next
    case False
    let ?ins = "insert_response (st_db st) (dbUserId (userIdMap st) r)
                     (r_question_id r) (r_score r) (r_timestamp r)"
    let ?st = "st\<lparr>st_db := snd ?ins, syncedResponses := Suc (syncedResponses st)\<rparr>"
    let ?R = "run_response_inserts fails (Suc k) rs ?st"
    from Cons.IH [of "Suc k" ?st] obtain new where
      "responses_table (st_db ?R) = responses_table (st_db ?st) @ new"
      "map response_fields new =
          map (\<lambda>r. (dbUserId (userIdMap ?st) r, r_question_id r, r_score r, r_timestamp r))
            (succeeded fails (Suc k) rs)"
      "syncedResponses ?R = syncedResponses ?st + length (succeeded fails (Suc k) rs)"
      "users_table (st_db ?R) = users_table (st_db ?st)"
      "syncedUsers ?R = syncedUsers ?st"
      "userIdMap ?R = userIdMap ?st"
      by blast
    then show ?thesis
      using False
      by (intro exI [of _ "\<lparr>r_id = int (Suc (responses_seq (st_db st))),
              r_user_id = dbUserId (userIdMap st) r, r_question_id = r_question_id r,
              r_score = r_score r, r_timestamp = r_timestamp r\<rparr> # new"])
         (simp add: insert_response_def Let_def)
  qed
qed

lemma userIdMap_run:
  "(\<forall>x. userIdMap st x \<noteq> Some 0) \<Longrightarrow>
   (\<forall>x. userIdMap (run_user_inserts fails k us st) x \<noteq> Some 0)
   \<and> dom (userIdMap (run_user_inserts fails k us st))
       = dom (userIdMap st) \<union> u_id ` set (succeeded fails k us)"
proof (induction us arbitrary: k st)
  case Nil
  then show ?case by simp
next
  case (Cons u us)
  show ?case
  proof (cases "fails k")
    case True
    then show ?thesis
      using Cons.IH [of "st\<lparr>rejected := True\<rparr>" "Suc k"] Cons.prems by simp
  next
    case False
    let ?st = "st\<lparr>st_db := snd (insert_user (st_db st) u),
                   userIdMap := (userIdMap st)(u_id u \<mapsto> fst (insert_user (st_db st) u)),
                   syncedUsers := Suc (syncedUsers st)\<rparr>"
    have "\<forall>x. userIdMap ?st x \<noteq> Some 0"
      using Cons.prems by (simp add: insert_user_def Let_def)
    from Cons.IH [OF this, of "Suc k"] show ?thesis
      using False by (auto simp: split_beta split: if_splits)
  qed
qed

lemma dbUserId_nonzero:
  "\<forall>x. m x \<noteq> Some 0 \<Longrightarrow>
   dbUserId m r = (case m (r_user_id r) of Some sid \<Rightarrow> sid | None \<Rightarrow> r_user_id r)"
  by (auto simp: dbUserId_def split: option.splits)

lemma step1_facts:
  "\<exists>new. users_table (st_db (sync_step1 fails db us)) = users_table db @ new
      \<and> map user_fields new = map user_fields (succeeded fails 0 us)
      \<and> syncedUsers (sync_step1 fails db us) = length (succeeded fails 0 us)
      \<and> responses_table (st_db (sync_step1 fails db us)) = responses_table db
      \<and> syncedResponses (sync_step1 fails db us) = 0"
  using users_run [of fails 0 us
      "\<lparr>st_db = db, userIdMap = Map.empty, syncedUsers = 0, syncedResponses = 0,
        rejected = False\<rparr>"]
  unfolding sync_step1_def by auto

lemma step1_rejected:
  "rejected (sync_step1 fails db us) \<longleftrightarrow> (\<exists>i<length us. fails i)"
  by (simp add: sync_step1_def rejected_users)

lemma step1_map:
  "(\<forall>x. userIdMap (sync_step1 fails db us) x \<noteq> Some 0)
   \<and> dom (userIdMap (sync_step1 fails db us)) = u_id ` set (succeeded fails 0 us)"
  using userIdMap_run [of "\<lparr>st_db = db, userIdMap = Map.empty, syncedUsers = 0,
      syncedResponses = 0, rejected = False\<rparr>" fails 0 us]
  by (simp add: sync_step1_def)


lemma api_sync_reply:
  "fst (api_sync fails db (Some us) (Some rs)) =
     (if \<exists>k < length us + length rs. fails k then Not_ok 500
      else Res_ok \<lparr>synced_users = length us, synced_responses = length rs\<rparr>)"
proof (cases "\<exists>i<length us. fails i")
  case True
  then have "\<exists>k < length us + length rs. fails k"
    by (meson trans_less_add1)
  then show ?thesis
    using True by (simp add: api_sync_def Let_def step1_rejected)
next
  case noU: False
  then have su: "succeeded fails 0 us = us"
    by (simp add: succeeded_all)
  let ?st1 = "sync_step1 fails db us"
  have r1: "\<not> rejected ?st1" using noU by (simp add: step1_rejected)
  have s1: "syncedUsers ?st1 = length us" "syncedResponses ?st1 = 0"
    using step1_facts [of fails db us] by (auto simp: su)
  have split: "(\<exists>k < length us + length rs. fails k) \<longleftrightarrow> (\<exists>i<length rs. fails (length us + i))"
  proof
    assume "\<exists>k < length us + length rs. fails k"
    then obtain k where k: "k < length us + length rs" "fails k" by blast
    with noU have "length us \<le> k" by (meson not_le)
    then have "k - length us < length rs" "fails (length us + (k - length us))"
      using k by simp_all
    then show "\<exists>i<length rs. fails (length us + i)" by blast
  next
    assume "\<exists>i<length rs. fails (length us + i)"
    then show "\<exists>k < length us + length rs. fails k"
      by (metis nat_add_left_cancel_less)
  qed
  show ?thesis
  proof (cases "\<exists>i<length rs. fails (length us + i)")
    case True
    then show ?thesis
      using r1 by (simp add: api_sync_def Let_def rejected_responses split)
  next
    case False
    then have "succeeded fails (length us) rs = rs"
      by (simp add: succeeded_all)
    then have "syncedResponses (run_response_inserts fails (length us) rs ?st1) = length rs"
      "syncedUsers (run_response_inserts fails (length us) rs ?st1) = length us"
      using responses_run [of fails "length us" rs ?st1] s1 by auto
    then show ?thesis
      using r1 False by (simp add: api_sync_def Let_def rejected_responses split)
  qed
qed


lemma api_sync_users:
  "take (length (users_table db)) (users_table (snd (api_sync fails db (Some us) (Some rs))))
     = users_table db
   \<and> map user_fields (created_users db (snd (api_sync fails db (Some us) (Some rs))))
     = map user_fields (succeeded fails 0 us)"
proof -
  let ?st1 = "sync_step1 fails db us"
  let ?st2 = "run_response_inserts fails (length us) rs ?st1"
  obtain new where new: "users_table (st_db ?st1) = users_table db @ new"
    "map user_fields new = map user_fields (succeeded fails 0 us)"
    using step1_facts [of fails db us] by blast
  have "users_table (st_db ?st2) = users_table (st_db ?st1)"
    using responses_run [of fails "length us" rs ?st1] by blast
  then have "users_table (snd (api_sync fails db (Some us) (Some rs))) = users_table db @ new"
    using new(1) by (simp add: api_sync_def Let_def)
  then show ?thesis
    using new(2) by (simp add: created_users_def)
qed

lemma api_sync_responses:
  "take (length (responses_table db))
      (responses_table (snd (api_sync fails db (Some us) (Some rs)))) = responses_table db
   \<and> map response_fields (created_responses db (snd (api_sync fails db (Some us) (Some rs))))
     = (if \<exists>i<length us. fails i then []
        else map (\<lambda>r. (dbUserId (userIdMap (sync_step1 fails db us)) r,
                       r_question_id r, r_score r, r_timestamp r))
               (succeeded fails (length us) rs))"
proof -
  let ?st1 = "sync_step1 fails db us"
  let ?st2 = "run_response_inserts fails (length us) rs ?st1"
  have r1: "responses_table (st_db ?st1) = responses_table db"
    using step1_facts [of fails db us] by blast
  obtain new where new: "responses_table (st_db ?st2) = responses_table (st_db ?st1) @ new"
    "map response_fields new =
       map (\<lambda>r. (dbUserId (userIdMap ?st1) r, r_question_id r, r_score r, r_timestamp r))
         (succeeded fails (length us) rs)"
    using responses_run [of fails "length us" rs ?st1] by blast
  show ?thesis
  proof (cases "\<exists>i<length us. fails i")
    case True
    then have "snd (api_sync fails db (Some us) (Some rs)) = st_db ?st1"
      by (simp add: api_sync_def Let_def step1_rejected)
    then show ?thesis using True r1 by (simp add: created_responses_def)
  next
    case False
    then have "\<not> rejected ?st1"
      by (simp add: step1_rejected)
    then have "snd (api_sync fails db (Some us) (Some rs)) = st_db ?st2"
      by (simp add: api_sync_def Let_def)
    then show ?thesis using False r1 new by (auto simp: created_responses_def)
  qed
qed

lemma sync_result_cases:
  assumes "read_item (sel_users (local_store c)) = Inr us"
    and "read_item (sel_responses (local_store c)) = Inr rs"
    and "us \<noteq> [] \<or> rs \<noteq> []"
  shows "syncLocalToServer lnk fails db c =
     (if lnk \<noteq> Delivered
      then (Inl Fetch_failed, c\<lparr>sent := sent c @ [sync_request]\<rparr>,
            snd (sync_remote lnk fails db us rs))
      else if \<exists>k < length us + length rs. fails k
      then (Inl Sync_failed, c\<lparr>sent := sent c @ [sync_request]\<rparr>,
            snd (api_sync fails db (Some us) (Some rs)))
      else (Inr \<lparr>synced_users = length us, synced_responses = length rs\<rparr>,
            c\<lparr>sent := sent c @ [sync_request],
              local_store := clearLocalData (local_store c)\<rparr>,
            snd (api_sync fails db (Some us) (Some rs))))"
proof -
  obtain rep db' where a: "api_sync fails db (Some us) (Some rs) = (rep, db')"
    by (cases "api_sync fails db (Some us) (Some rs)")
  then have rep: "rep = (if \<exists>k < length us + length rs. fails k then Not_ok 500
      else Res_ok \<lparr>synced_users = length us, synced_responses = length rs\<rparr>)"
    using api_sync_reply [of fails db us rs] by simp
  show ?thesis
    using assms
    by (cases lnk)
       (auto simp: syncLocalToServer_def sync_remote_def fetchWithTimeout_def sync_request_def
          a rep)
qed

lemma sync_empty:
  assumes "read_item (sel_users (local_store c)) = Inr []"
    and "read_item (sel_responses (local_store c)) = Inr []"
  shows "syncLocalToServer lnk fails db c
     = (Inr \<lparr>synced_users = 0, synced_responses = 0\<rparr>, c, db)"
  using assms by (simp add: syncLocalToServer_def)

lemma read_cleared:
  "read_item (sel_users (clearLocalData ls)) = Inr []"
  "read_item (sel_responses (clearLocalData ls)) = Inr []"
  by (simp_all add: clearLocalData_def read_item_def)

lemma sync_ok_facts:
  assumes "read_item (sel_users (local_store c)) = Inr us"
    and "read_item (sel_responses (local_store c)) = Inr rs"
    and "syncLocalToServer lnk fails db c = (Inr res, c', db')"
  shows "(\<not> (\<exists>k < length us + length rs. fails k))
        \<and> res = \<lparr>synced_users = length us, synced_responses = length rs\<rparr>
        \<and> db' = snd (api_sync fails db (Some us) (Some rs))
        \<and> read_item (sel_users (local_store c')) = Inr []
        \<and> read_item (sel_responses (local_store c')) = Inr []"
proof (cases "us = [] \<and> rs = []")
    case True
    then have "syncLocalToServer lnk fails db c
        = (Inr \<lparr>synced_users = 0, synced_responses = 0\<rparr>, c, db)"
      using assms(1,2) by (simp add: sync_empty)
    then have "res = \<lparr>synced_users = 0, synced_responses = 0\<rparr>" "c' = c" "db' = db"
      using assms(3) by simp_all
    moreover have "snd (api_sync fails db (Some []) (Some [])) = db"
      by (simp add: api_sync_def sync_step1_def)
    ultimately show ?thesis
      using True assms(1,2) by simp
  next
    case False
    then have ne: "us \<noteq> [] \<or> rs \<noteq> []" by simp
    note r = sync_result_cases [OF assms(1,2) ne, of lnk fails db]
    have lnk: "lnk = Delivered"
    proof (rule ccontr)
      assume "lnk \<noteq> Delivered"
      then have "fst (syncLocalToServer lnk fails db c) = Inl Fetch_failed"
        by (simp add: r)
      then show False by (simp add: assms(3))
    qed
    have ok: "\<not> (\<exists>k < length us + length rs. fails k)"
    proof
      assume "\<exists>k < length us + length rs. fails k"
      then have "fst (syncLocalToServer lnk fails db c) = Inl Sync_failed"
        using r by (simp add: lnk)
      then show False by (simp add: assms(3))
    qed
    have "syncLocalToServer lnk fails db c =
        (Inr \<lparr>synced_users = length us, synced_responses = length rs\<rparr>,
              c\<lparr>sent := sent c @ [sync_request],
                local_store := clearLocalData (local_store c)\<rparr>,
              snd (api_sync fails db (Some us) (Some rs)))"
      using ok r by (simp add: lnk)
    then have "res = \<lparr>synced_users = length us, synced_responses = length rs\<rparr>"
      and "local_store c' = clearLocalData (local_store c)"
      and "db' = snd (api_sync fails db (Some us) (Some rs))"
      using assms(3) by simp_all
    then show ?thesis
      using ok by (simp add: read_cleared)
  qed

lemmas sync_defs = syncLocalToServer_def sync_remote_def api_sync_def sync_step1_def
  fetchWithTimeout_def insert_user_def insert_response_def dbUserId_def read_item_def
  clearLocalData_def

lemmas ex_defs = ex_client_def orphan_store_def ex_database_def ex_user_def ex_response_def

lemma ex_sync_ok:
  "syncLocalToServer Delivered no_failure ex_database ex_client =
     (Inr \<lparr>synced_users = 1, synced_responses = 3\<rparr>, ex_client_after, ex_database_after)"
  by (simp add: sync_defs ex_defs no_failure_def ex_client_after_def ex_database_after_def)

lemma ex_reads:
  "read_item (sel_users (local_store ex_client)) = Inr [ex_user]"
  "read_item (sel_responses (local_store ex_client)) =
     Inr [ex_response 11 1 1 4 1000, ex_response 12 7 1 5 2000, ex_response 13 9 2 3 3000]"
  by (simp_all add: read_item_def ex_client_def orphan_store_def)

section \<open>Sync Reconciler: round trip\<close>

text \<open>
  Claim C1.  Let the local store hold \<open>N\<close> pending users and \<open>M\<close> pending responses.  If
  the sync run completes without error, then its result is
  \<^verbatim>\<open>{synced_users: N, synced_responses: M}\<close>, the remote store keeps the records it had
  and has exactly \<open>N\<close> new user records, with the profile fields of the local users, and
  exactly \<open>M\<close> new response records, with the question ids, scores and timestamps of the
  local responses, and both local collections are empty afterwards.
\<close>

theorem sync_round_trip:
  assumes "read_item (sel_users (local_store c)) = Inr us"
    and "read_item (sel_responses (local_store c)) = Inr rs"
    and "syncLocalToServer lnk fails db c = (Inr res, c', db')"
  shows "res = \<lparr>synced_users = length us, synced_responses = length rs\<rparr>
     \<and> take (length (users_table db)) (users_table db') = users_table db
     \<and> length (created_users db db') = length us
     \<and> map user_fields (created_users db db') = map user_fields us
     \<and> take (length (responses_table db)) (responses_table db') = responses_table db
     \<and> length (created_responses db db') = length rs
     \<and> map r_question_id (created_responses db db') = map r_question_id rs
     \<and> map r_score (created_responses db db') = map r_score rs
     \<and> map r_timestamp (created_responses db db') = map r_timestamp rs
     \<and> read_item (sel_users (local_store c')) = Inr []
     \<and> read_item (sel_responses (local_store c')) = Inr []"
proof -
  note facts = sync_ok_facts [OF assms]
  have ok: "\<not> (\<exists>k < length us + length rs. fails k)"
    and res: "res = \<lparr>synced_users = length us, synced_responses = length rs\<rparr>"
    and db': "db' = snd (api_sync fails db (Some us) (Some rs))"
    and cu: "read_item (sel_users (local_store c')) = Inr []"
    and cr: "read_item (sel_responses (local_store c')) = Inr []"
    using facts by blast+
  have su: "succeeded fails 0 us = us"
    using ok by (simp add: succeeded_all)
  have sr: "succeeded fails (length us) rs = rs"
    using ok by (simp add: succeeded_all)
  have nou: "\<not> (\<exists>i<length us. fails i)"
    using ok by (meson trans_less_add1)
  have u1: "take (length (users_table db)) (users_table db') = users_table db"
    and u2: "map user_fields (created_users db db') = map user_fields us"
    using api_sync_users [of db fails us rs] by (simp_all add: db' su)
  have r1: "take (length (responses_table db)) (responses_table db') = responses_table db"
    and r2: "map response_fields (created_responses db db') =
       map (\<lambda>r. (dbUserId (userIdMap (sync_step1 fails db us)) r,
                       r_question_id r, r_score r, r_timestamp r)) rs"
    using api_sync_responses [of db fails us rs] nou by (simp_all add: db' sr)
  have lu: "length (created_users db db') = length us"
    using arg_cong [OF u2, of length] by simp
  have lr: "length (created_responses db db') = length rs"
    using arg_cong [OF r2, of length] by simp
  have f1: "map r_question_id (created_responses db db') = map r_question_id rs"
    using arg_cong [OF r2, of "map (\<lambda>x. fst (snd x))"]
    by (simp add: comp_def response_fields_def)
  have f2: "map r_score (created_responses db db') = map r_score rs"
    using arg_cong [OF r2, of "map (\<lambda>x. fst (snd (snd x)))"]
    by (simp add: comp_def response_fields_def)
  have f3: "map r_timestamp (created_responses db db') = map r_timestamp rs"
    using arg_cong [OF r2, of "map (\<lambda>x. snd (snd (snd x)))"]
    by (simp add: comp_def response_fields_def)
  show ?thesis
    by (intro conjI) (fact res u1 lu u2 r1 lr f1 f2 f3 cu cr)+
qed

theorem sync_round_trip_witness:
  "read_item (sel_users (local_store ex_client)) = Inr [ex_user]
   \<and> read_item (sel_responses (local_store ex_client)) =
       Inr [ex_response 11 1 1 4 1000, ex_response 12 7 1 5 2000, ex_response 13 9 2 3 3000]
   \<and> syncLocalToServer Delivered no_failure ex_database ex_client =
       (Inr \<lparr>synced_users = 1, synced_responses = 3\<rparr>, ex_client_after, ex_database_after)
   \<and> length (created_users ex_database ex_database_after) = 1
   \<and> length (created_responses ex_database ex_database_after) = 3
   \<and> read_item (sel_users (local_store ex_client_after)) = Inr []
   \<and> read_item (sel_responses (local_store ex_client_after)) = Inr []"
  using ex_reads ex_sync_ok sync_round_trip [OF ex_reads ex_sync_ok]
  by simp

section \<open>Sync Reconciler: partial failure\<close>

text \<open>
  Claim C2.  Let the local store hold \<open>N\<close> pending users and \<open>M\<close> pending responses.  If
  the \<open>K\<close>-th create of the combined sequence (users first, then responses) fails, for
  any \<open>K\<close> below \<open>N + M\<close>, then the sync run ends with one error for the caller, which is
  \<^verbatim>\<open>Sync failed\<close> when the answer of the server arrives, and the local store is what it
  was: it still holds the \<open>N\<close> users and the \<open>M\<close> responses.
\<close>

theorem sync_failure_keeps_local_data:
  assumes "read_item (sel_users (local_store c)) = Inr us"
    and "read_item (sel_responses (local_store c)) = Inr rs"
    and "K < length us + length rs" and "fails K"
  shows "fst (syncLocalToServer lnk fails db c)
           = Inl (if lnk = Delivered then Sync_failed else Fetch_failed)
       \<and> local_store (fst (snd (syncLocalToServer lnk fails db c))) = local_store c
       \<and> read_item (sel_users (local_store (fst (snd (syncLocalToServer lnk fails db c)))))
           = Inr us
       \<and> read_item (sel_responses (local_store (fst (snd (syncLocalToServer lnk fails db c)))))
           = Inr rs"
proof -
  have ne: "us \<noteq> [] \<or> rs \<noteq> []"
    using assms(3) by auto
  have ex: "\<exists>k < length us + length rs. fails k"
    using assms(3,4) by blast
  note r = sync_result_cases [OF assms(1,2) ne, of lnk fails db]
  have 1: "fst (syncLocalToServer lnk fails db c)
           = Inl (if lnk = Delivered then Sync_failed else Fetch_failed)"
    using ex by (simp add: r)
  have 2: "local_store (fst (snd (syncLocalToServer lnk fails db c))) = local_store c"
    using ex by (simp add: r)
  show ?thesis
    using 1 2 assms(1,2) by simp
qed

lemma ex_third_fails:
  "fst (syncLocalToServer Delivered third_fails ex_database ex_client) = Inl Sync_failed"
  by (simp add: sync_defs ex_defs third_fails_def)

theorem sync_failure_keeps_local_data_witness:
  "read_item (sel_users (local_store ex_client)) = Inr [ex_user]
   \<and> read_item (sel_responses (local_store ex_client)) =
       Inr [ex_response 11 1 1 4 1000, ex_response 12 7 1 5 2000, ex_response 13 9 2 3 3000]
   \<and> (2::nat) < length [ex_user]
         + length [ex_response 11 1 1 4 1000, ex_response 12 7 1 5 2000, ex_response 13 9 2 3 3000]
   \<and> third_fails 2
   \<and> fst (syncLocalToServer Delivered third_fails ex_database ex_client) = Inl Sync_failed
   \<and> local_store (fst (snd (syncLocalToServer Delivered third_fails ex_database ex_client)))
       = local_store ex_client"
proof -
  have k: "(2::nat) < length [ex_user]
         + length [ex_response 11 1 1 4 1000, ex_response 12 7 1 5 2000, ex_response 13 9 2 3 3000]"
    and f: "third_fails 2"
    by (simp_all add: third_fails_def)
  show ?thesis
    using ex_reads k f
      sync_failure_keeps_local_data [where fails = third_fails and K = 2, OF ex_reads k f,
        of Delivered ex_database]
    by simp
qed

section \<open>Sync Reconciler: empty local store\<close>

text \<open>
  Claim C4.  When both local collections are empty, the sync run returns
  \<^verbatim>\<open>{synced_users: 0, synced_responses: 0}\<close>, sends no request, and leaves the client
  and the database as they were; a second run on what the first one left does the same.
\<close>

theorem sync_of_empty_store_is_noop:
  assumes "read_item (sel_users (local_store c)) = Inr []"
    and "read_item (sel_responses (local_store c)) = Inr []"
  shows "syncLocalToServer lnk fails db c
           = (Inr \<lparr>synced_users = 0, synced_responses = 0\<rparr>, c, db)
       \<and> sent (fst (snd (syncLocalToServer lnk fails db c))) = sent c
       \<and> syncLocalToServer lnk' fails' (snd (snd (syncLocalToServer lnk fails db c)))
            (fst (snd (syncLocalToServer lnk fails db c)))
           = (Inr \<lparr>synced_users = 0, synced_responses = 0\<rparr>, c, db)"
  using assms by (simp add: sync_empty)

theorem sync_of_empty_store_is_noop_witness:
  "read_item (sel_users (local_store ex_client_after)) = Inr []
   \<and> read_item (sel_responses (local_store ex_client_after)) = Inr []
   \<and> syncLocalToServer Unreachable third_fails ex_database_after ex_client_after
       = (Inr \<lparr>synced_users = 0, synced_responses = 0\<rparr>, ex_client_after, ex_database_after)
   \<and> sent (fst (snd (syncLocalToServer Unreachable third_fails ex_database_after ex_client_after)))
       = sent ex_client_after"
proof -
  have h: "read_item (sel_users (local_store ex_client_after)) = Inr []"
    "read_item (sel_responses (local_store ex_client_after)) = Inr []"
    by (simp_all add: read_item_def ex_client_after_def)
  show ?thesis
    using h sync_of_empty_store_is_noop [OF h, of Unreachable third_fails ex_database_after]
    by simp
qed

section \<open>Sync Reconciler: owner and timestamp of an uploaded response\<close>

text \<open>
  Claim C5.  In a sync run whose step 1 was not rejected, so that step 2 runs, every
  response row that the server creates has as user id the server id that \<^verbatim>\<open>userIdMap\<close>
  holds for the user id of the local response, or that user id itself when the map has
  no entry for it, and it has the question id, the score and the timestamp of the local
  response; the keys of the map are the ids of the local users.
\<close>

theorem sync_response_owner_and_timestamp:
  assumes "\<not> rejected (sync_step1 fails db us)"
  shows "map response_fields
           (created_responses db (snd (api_sync fails db (Some us) (Some rs))))
         = map (\<lambda>r. (case userIdMap (sync_step1 fails db us) (r_user_id r) of
                         Some sid \<Rightarrow> sid
                       | None \<Rightarrow> r_user_id r,
                       r_question_id r, r_score r, r_timestamp r))
             (succeeded fails (length us) rs)
       \<and> dom (userIdMap (sync_step1 fails db us)) = u_id ` set us"
proof -
  have no: "\<not> (\<exists>i<length us. fails i)"
    using assms by (simp add: step1_rejected)
  have m: "\<forall>x. userIdMap (sync_step1 fails db us) x \<noteq> Some 0"
    using step1_map [of fails db us] by blast
  have "succeeded fails 0 us = us"
    using no by (simp add: succeeded_all)
  then have d: "dom (userIdMap (sync_step1 fails db us)) = u_id ` set us"
    using step1_map [of fails db us] by simp
  have "map response_fields
           (created_responses db (snd (api_sync fails db (Some us) (Some rs))))
     = map (\<lambda>r. (dbUserId (userIdMap (sync_step1 fails db us)) r,
                       r_question_id r, r_score r, r_timestamp r))
               (succeeded fails (length us) rs)"
    using api_sync_responses [of db fails us rs] no by auto
  then show ?thesis
    using d by (simp add: dbUserId_nonzero [OF m])
qed

lemma ex_created:
  "map response_fields
     (created_responses ex_database
        (snd (api_sync no_failure ex_database (Some [ex_user])
           (Some [ex_response 11 1 1 4 1000, ex_response 12 7 1 5 2000,
                  ex_response 13 9 2 3 3000]))))
   = [(2, 1, 4, 1000), (7, 1, 5, 2000), (9, 2, 3, 3000)]"
  by (simp add: sync_defs ex_defs no_failure_def created_responses_def response_fields_def)

theorem sync_response_owner_and_timestamp_witness:
  "\<not> rejected (sync_step1 no_failure ex_database [ex_user])
   \<and> userIdMap (sync_step1 no_failure ex_database [ex_user]) 1 = Some 2
   \<and> userIdMap (sync_step1 no_failure ex_database [ex_user]) 7 = None
   \<and> map response_fields
        (created_responses ex_database
           (snd (api_sync no_failure ex_database (Some [ex_user])
              (Some [ex_response 11 1 1 4 1000, ex_response 12 7 1 5 2000,
                     ex_response 13 9 2 3 3000]))))
      = [(2, 1, 4, 1000), (7, 1, 5, 2000), (9, 2, 3, 3000)]
   \<and> dom (userIdMap (sync_step1 no_failure ex_database [ex_user])) = u_id ` set [ex_user]"
proof -
  have h: "\<not> rejected (sync_step1 no_failure ex_database [ex_user])"
    by (simp add: sync_defs ex_defs no_failure_def)
  have m: "userIdMap (sync_step1 no_failure ex_database [ex_user]) 1 = Some 2"
    "userIdMap (sync_step1 no_failure ex_database [ex_user]) 7 = None"
    by (simp_all add: sync_defs ex_defs no_failure_def)
  show ?thesis
    using h m ex_created
      sync_response_owner_and_timestamp [OF h, of
        "[ex_response 11 1 1 4 1000, ex_response 12 7 1 5 2000, ex_response 13 9 2 3 3000]"]
    by blast
qed

section \<open>Dual-Mode Data Gateway: deadlines of the read operations\<close>

text \<open>
  Claim C6, as the code has it.  \<^verbatim>\<open>fetchAllResponses\<close> sends one request with a deadline
  of 5000 ms and \<^verbatim>\<open>fetchUserResponses\<close> sends one request with a deadline of 3000 ms;
  each returns the remote rows when the remote store answers with success, and the
  result of its local fallback when the request fails or the status is not a success.
\<close>

theorem read_deadlines:
  "sent (snd (fetchAllResponses remote c))
     = sent c @ [\<lparr>url = ''/admin/responses'', http_method = ''GET'', timeout = 5000\<rparr>]
   \<and> sent (snd (fetchUserResponses remote' userId c))
     = sent c @ [\<lparr>url = ''/users/:id/responses'', http_method = ''GET'', timeout = 3000\<rparr>]
   \<and> fst (fetchAllResponses (Res_ok data) c) = Inr (DB, data)
   \<and> fst (fetchAllResponses Threw c) = fetchAllResponses_local (local_store c)
   \<and> fst (fetchAllResponses (Not_ok status) c) = fetchAllResponses_local (local_store c)
   \<and> fst (fetchUserResponses (Res_ok data') userId c) = Inr (DB, data')
   \<and> fst (fetchUserResponses Threw userId c) = fetchUserResponses_local userId (local_store c)
   \<and> fst (fetchUserResponses (Not_ok status) userId c)
       = fetchUserResponses_local userId (local_store c)"
  by (simp add: fetchAllResponses_def fetchUserResponses_def fetchWithTimeout_def
      split: reply.splits)

text \<open>
  The claim as it is written gives both read operations a deadline of about 5 time
  units; the request of \<^verbatim>\<open>fetchUserResponses\<close> has the deadline 3000 ms.
\<close>

theorem user_read_deadline_counterexample:
  "map timeout (sent (snd (fetchUserResponses Threw 1 ex_client))) = [3000]
   \<and> map timeout (sent (snd (fetchUserResponses Threw 1 ex_client))) \<noteq> [5000]"
  by (simp add: fetchUserResponses_def fetchWithTimeout_def ex_client_def split: reply.splits)

section \<open>Local Fallback Store: absent and unparseable collections\<close>




section \<open>Dual-Mode Data Gateway: local ids of users created offline\<close>

lemma createUser_offline_users:
  assumes "read_item (sel_users (local_store c)) = Inr old"
  shows "\<exists>c' new. createUser_offline calls c = Inr c'
      \<and> read_item (sel_users (local_store c')) = Inr (old @ new)
      \<and> map u_id new = map fst calls"
  using assms
proof (induction calls arbitrary: c old)
  case Nil
  then show ?case by simp
next
  case (Cons call calls)
  obtain now nm av gr ge where call: "call = (now, nm, av, gr, ge)"
    by (cases call)
  let ?u = "\<lparr>u_id = now, u_name = nm, u_avatar = av, u_grade = gr, u_gender = ge\<rparr>"
  let ?c1 = "c\<lparr>sent := sent c @ [\<lparr>url = ''/login'', http_method = ''POST'', timeout = 3000\<rparr>],
               local_store := (local_store c)\<lparr>sel_users := Json_array (old @ [?u])\<rparr>\<rparr>"
  have step: "createUser Threw now nm av gr ge c = (Inr ?u, ?c1)"
    using Cons.prems by (simp add: createUser_def fetchWithTimeout_def Let_def)
  have "read_item (sel_users (local_store ?c1)) = Inr (old @ [?u])"
    by (simp add: read_item_def)
  from Cons.IH [OF this] obtain c' new where
    "createUser_offline calls ?c1 = Inr c'"
    "read_item (sel_users (local_store c')) = Inr ((old @ [?u]) @ new)"
    "map u_id new = map fst calls"
    by blast
  then show ?case
    by (intro exI [of _ c'] exI [of _ "?u # new"]) (simp add: call step)
qed

text \<open>
  Claim C8, as the code has it.  A sequence of \<^verbatim>\<open>createUser\<close> calls made while the
  remote store is unreachable, on a local user collection that parses, appends one user
  per call, and the ids of these users are the readings of the clock at the calls, in
  order.  So the new ids are pairwise distinct when the readings are, and all ids of the
  local collection are pairwise distinct when moreover the ids it already had are
  pairwise distinct and differ from the readings.
\<close>

theorem offline_ids_are_clock_readings:
  assumes "read_item (sel_users (local_store c)) = Inr old"
  shows "\<exists>c' new. createUser_offline calls c = Inr c'
      \<and> read_item (sel_users (local_store c')) = Inr (old @ new)
      \<and> map u_id new = map fst calls
      \<and> (distinct (map fst calls) \<longrightarrow> distinct (map u_id new))
      \<and> (distinct (map fst calls) \<and> distinct (map u_id old)
           \<and> set (map fst calls) \<inter> set (map u_id old) = {}
          \<longrightarrow> distinct (map u_id (old @ new)))"
proof -
  from createUser_offline_users [OF assms, of calls] obtain c' new where
    *: "createUser_offline calls c = Inr c'"
    "read_item (sel_users (local_store c')) = Inr (old @ new)"
    "map u_id new = map fst calls"
    by blast
  then have "distinct (map fst calls) \<longrightarrow> distinct (map u_id new)"
    "distinct (map fst calls) \<and> distinct (map u_id old)
           \<and> set (map fst calls) \<inter> set (map u_id old) = {}
          \<longrightarrow> distinct (map u_id (old @ new))"
    by auto
  with * show ?thesis by blast
qed

theorem offline_ids_are_clock_readings_witness:
  "read_item (sel_users (local_store ex_client)) = Inr [ex_user]
   \<and> distinct (map fst later_calls) \<and> distinct (map u_id [ex_user])
   \<and> set (map fst later_calls) \<inter> set (map u_id [ex_user]) = {}
   \<and> (\<exists>c' new. createUser_offline later_calls ex_client = Inr c'
      \<and> read_item (sel_users (local_store c')) = Inr ([ex_user] @ new)
      \<and> map u_id new = [1700000000000, 1700000000001]
      \<and> distinct (map u_id ([ex_user] @ new)))"
proof -
  have h: "read_item (sel_users (local_store ex_client)) = Inr [ex_user]"
    by (rule ex_reads)
  have d: "distinct (map fst later_calls)" "distinct (map u_id [ex_user])"
    "set (map fst later_calls) \<inter> set (map u_id [ex_user]) = {}"
    "map fst later_calls = [1700000000000, 1700000000001]"
    by (simp_all add: later_calls_def ex_user_def)
  from offline_ids_are_clock_readings [OF h, of later_calls] obtain c' new where
    "createUser_offline later_calls ex_client = Inr c'"
    "read_item (sel_users (local_store c')) = Inr ([ex_user] @ new)"
    "map u_id new = map fst later_calls"
    "distinct (map u_id ([ex_user] @ new))"
    using d(1-3) by blast
  then show ?thesis
    using h d by (metis (no_types, lifting))
qed

text \<open>
  The claim as it is written holds for every sequence of calls; two calls that read the
  same millisecond from the clock create two users with the same id.
\<close>

theorem same_millisecond_counterexample:
  "createUser_offline two_calls empty_client =
     Inr \<lparr>local_store =
            \<lparr>sel_users = Json_array
               [\<lparr>u_id = 1700000000000, u_name = ''Mei'', u_avatar = ''cat'', u_grade = ''3'',
                 u_gender = ''F''\<rparr>,
                \<lparr>u_id = 1700000000000, u_name = ''Lin'', u_avatar = ''dog'', u_grade = ''4'',
                 u_gender = ''M''\<rparr>],
             sel_responses = Absent\<rparr>,
          sent = [login_request, login_request]\<rparr>
   \<and> \<not> distinct [1700000000000 :: int, 1700000000000]"
  by (simp add: two_calls_def empty_client_def login_request_def createUser_def
      fetchWithTimeout_def read_item_def Let_def)

end
